theory Spec2Isabelle
  imports Complex_Main
begin

section \<open>Python strings\<close>

text \<open>
  A Python \<open>str\<close> is a sequence of Unicode code points, and \<open>len\<close> counts code
  points. A string is therefore a list of code points; \<open>py\<close> turns an ASCII literal
  of the source into such a list, and \<open>+\<close> on \<open>str\<close> is list append.
\<close>

type_synonym pystr = "nat list"

definition py :: "string \<Rightarrow> pystr" where
  "py cs = map of_char cs"

text \<open>
  \<open>str.strip()\<close> without argument removes leading and trailing whitespace. What counts
  as whitespace is decided by the interpreter, not by this repository, so the predicate is
  a parameter; \<open>isspace_ascii\<close> is its restriction to ASCII, for running the model.
\<close>

definition strip :: "(nat \<Rightarrow> bool) \<Rightarrow> pystr \<Rightarrow> pystr" where
  "strip isspace s = rev (dropWhile isspace (rev (dropWhile isspace s)))"

definition isspace_ascii :: "nat \<Rightarrow> bool" where
  "isspace_ascii c = (c = 32 \<or> (9 \<le> c \<and> c \<le> 13) \<or> (28 \<le> c \<and> c \<le> 31))"

text \<open>
  \<open>str.lower()\<close> is a parameter as well (the Unicode case tables are the
  interpreter's); \<open>lower_ascii\<close> is what it does on ASCII text.
\<close>

definition lower_ascii :: "pystr \<Rightarrow> pystr" where
  "lower_ascii s = map (\<lambda>c. if 65 \<le> c \<and> c \<le> 90 then c + 32 else c) s"

section \<open>Messages and conversation state (state.py)\<close>

datatype message = SystemMessage pystr | HumanMessage pystr | AIMessage pystr

text \<open>
  \<open>State\<close> extends \<open>MessagesState\<close>; the nodes accept it either as a dict, where a
  key may be missing, or as an object with attributes. \<open>None\<close> at the outer level of a
  dict field means the key is missing; at the inner level it is Python's \<open>None\<close>.
\<close>

record dict_state =
  d_messages :: "message list option"
  d_issue_type :: "pystr option option"
  d_current_agent :: "pystr option option"

record obj_state =
  o_messages :: "message list"
  o_issue_type :: "pystr option"
  o_current_agent :: "pystr option"

datatype state = DictState dict_state | ObjState obj_state

text \<open>\<open>state.get("messages", []) if isinstance(state, dict) else state.messages\<close>\<close>

fun state_messages :: "state \<Rightarrow> message list" where
  "state_messages (DictState d) = (case d_messages d of None \<Rightarrow> [] | Some ms \<Rightarrow> ms)"
| "state_messages (ObjState obj) = o_messages obj"

section \<open>Runtime of the graph\<close>

text \<open>
  A raised exception is a value; the payload is what \<open>str(e)\<close> gives.
\<close>

datatype exn = KeyError pystr | Exception pystr

fun exn_str :: "exn \<Rightarrow> pystr" where
  "exn_str (KeyError m) = m"
| "exn_str (Exception m) = m"

text \<open>
  What a node needs from outside the repository: the two string builtins, the intent
  model (\<open>get_intent_llm(runtime).ainvoke\<close>, returning the reply's \<open>content\<close>) and the
  agent model (\<open>get_agent_llm(runtime).bind_tools(TOOLS).ainvoke\<close>, returning the reply
  message). A model call may raise.
\<close>

record runtime =
  isspace :: "nat \<Rightarrow> bool"
  lower :: "pystr \<Rightarrow> pystr"
  intent_llm :: "message list \<Rightarrow> exn + pystr"
  agent_llm :: "message list \<Rightarrow> exn + message"

text \<open>The dict a node returns: \<open>{"issue_type": ...}\<close> or \<open>{"messages": [...]}\<close>.\<close>

datatype update = IssueTypeUpdate pystr | MessagesUpdate "message list"

section \<open>Classifier (graph.py, detect\_intent)\<close>

definition valid_types :: "pystr set" where
  "valid_types = {py ''heating'', py ''damp'', py ''repairs'', py ''general''}"

text \<open>
  Lines 76 to 78: \<open>detected = response.content.strip().lower()\<close>, then
  \<open>issue_type = detected if detected in valid_types else "general"\<close>.
\<close>

definition parse_intent :: "runtime \<Rightarrow> pystr \<Rightarrow> pystr" where
  "parse_intent rt content =
     (let detected = lower rt (strip (isspace rt) content)
      in if detected \<in> valid_types then detected else py ''general'')"

definition intent_prompt :: pystr where
  "intent_prompt = py
     (''Classify the user message into EXACTLY ONE category:\<newline>'' @
      ''- heating: boiler errors, radiator issues, temperature, heating problems\<newline>'' @
      ''- damp: damp, mold, mould, condensation, moisture, wet issues\<newline>'' @
      ''- repairs: broken taps/pipes, cracked windows, electrical faults, doors, brickwork, roofing, painting\<newline>'' @
      ''- general: other housing issues\<newline>'' @
      ''\<newline>'' @
      ''Answer with ONLY the category name in lowercase, nothing else.'')"

text \<open>
  The node: one call of the intent model on the prompt followed by the history; an
  exception of the call propagates; otherwise the update \<open>{"issue_type": issue_type}\<close>.
\<close>

definition detect_intent :: "runtime \<Rightarrow> state \<Rightarrow> exn + update" where
  "detect_intent rt st =
     (case intent_llm rt (SystemMessage intent_prompt # state_messages st) of
        Inl e \<Rightarrow> Inl e
      | Inr content \<Rightarrow> Inr (IssueTypeUpdate (parse_intent rt content)))"

section \<open>Specialist agents (graph.py)\<close>

definition heating_prompt :: pystr where
  "heating_prompt = py
     (''You are a heating system expert. Help users with boiler errors, \<newline>'' @
      ''radiator issues, temperature problems, and heating maintenance. Provide practical, \<newline>'' @
      ''safety-conscious advice.'')"

definition damp_prompt :: pystr where
  "damp_prompt = py
     (''You are a damp and moisture specialist. Help users with mold, \<newline>'' @
      ''condensation, moisture, and dampness problems. Provide practical solutions and prevention tips.'')"

definition repairs_prompt :: pystr where
  "repairs_prompt = py
     (''You are a repairs and maintenance expert. Help users with plumbing, \<newline>'' @
      ''electrical, structural issues, broken fixtures, and general home maintenance. \<newline>'' @
      ''Provide practical advice and safety warnings when needed.'')"

definition general_prompt :: pystr where
  "general_prompt = py
     (''You are a general housing advisor. Help users with any housing-related \<newline>'' @
      ''questions that don't fit into heating, damp, or repairs categories. Provide practical advice \<newline>'' @
      ''and guidance.'')"

text \<open>
  The four agents have one shape: the agent model (with the tools bound) is called on the
  persona followed by the history, and the reply is returned as \<open>{"messages": [response]}\<close>.
\<close>

definition agent_node :: "pystr \<Rightarrow> runtime \<Rightarrow> state \<Rightarrow> exn + update" where
  "agent_node system_prompt rt st =
     (case agent_llm rt (SystemMessage system_prompt # state_messages st) of
        Inl e \<Rightarrow> Inl e
      | Inr response \<Rightarrow> Inr (MessagesUpdate [response]))"

definition heating_agent :: "runtime \<Rightarrow> state \<Rightarrow> exn + update" where
  "heating_agent = agent_node heating_prompt"

definition damp_agent :: "runtime \<Rightarrow> state \<Rightarrow> exn + update" where
  "damp_agent = agent_node damp_prompt"

definition repairs_agent :: "runtime \<Rightarrow> state \<Rightarrow> exn + update" where
  "repairs_agent = agent_node repairs_prompt"

definition general_agent :: "runtime \<Rightarrow> state \<Rightarrow> exn + update" where
  "general_agent = agent_node general_prompt"

section \<open>Dispatch (graph.py, route\_to\_agent)\<close>

text \<open>The dict \<open>routing\<close>, in the order of the source.\<close>

definition routing :: "(pystr \<times> pystr) list" where
  "routing =
     [(py ''heating'', py ''heating_agent''),
      (py ''damp'', py ''damp_agent''),
      (py ''repairs'', py ''repairs_agent''),
      (py ''general'', py ''general_agent'')]"

text \<open>
  \<open>routing.get(issue_type, "general_agent")\<close>: the key may be \<open>None\<close>, which is
  hashable and not a key of \<open>routing\<close>.
\<close>

definition routing_get :: "pystr option \<Rightarrow> pystr \<Rightarrow> pystr" where
  "routing_get k dflt =
     (case k of
        None \<Rightarrow> dflt
      | Some s \<Rightarrow> (case map_of routing s of None \<Rightarrow> dflt | Some v \<Rightarrow> v))"

text \<open>
  \<open>state.get("issue_type", "general")\<close> for a dict (a stored \<open>None\<close> is returned as
  it is), \<open>state.issue_type or "general"\<close> for an object (\<open>None\<close> and the empty string
  are falsy).
\<close>

fun route_to_agent :: "state \<Rightarrow> pystr" where
  "route_to_agent (DictState d) =
     routing_get (case d_issue_type d of None \<Rightarrow> Some (py ''general'') | Some v \<Rightarrow> v)
       (py ''general_agent'')"
| "route_to_agent (ObjState obj) =
     routing_get
       (case o_issue_type obj of
          None \<Rightarrow> Some (py ''general'')
        | Some s \<Rightarrow> if s = [] then Some (py ''general'') else Some s)
       (py ''general_agent'')"

definition specialists :: "pystr set" where
  "specialists =
     {py ''heating_agent'', py ''damp_agent'', py ''repairs_agent'', py ''general_agent''}"

section \<open>Routing graph (graph.py, builder)\<close>

definition START :: pystr where
  "START = py ''__start__''"

definition END :: pystr where
  "END = py ''__end__''"

text \<open>The \<open>add_node\<close> calls: node name and node function.\<close>

definition nodes :: "(pystr \<times> (runtime \<Rightarrow> state \<Rightarrow> exn + update)) list" where
  "nodes =
     [(py ''detect_intent'', detect_intent),
      (py ''heating_agent'', heating_agent),
      (py ''damp_agent'', damp_agent),
      (py ''repairs_agent'', repairs_agent),
      (py ''general_agent'', general_agent)]"

text \<open>The \<open>add_edge\<close> calls, in the order of the source.\<close>

definition edges :: "(pystr \<times> pystr) list" where
  "edges =
     [(START, py ''detect_intent''),
      (py ''heating_agent'', END),
      (py ''damp_agent'', END),
      (py ''repairs_agent'', END),
      (py ''general_agent'', END)]"

text \<open>\<open>builder.add_conditional_edges("detect_intent", route_to_agent)\<close>\<close>

definition conditional_edges :: "(pystr \<times> (state \<Rightarrow> pystr)) list" where
  "conditional_edges = [(py ''detect_intent'', route_to_agent)]"

text \<open>
  Modelled from the spec: the execution engine is the langgraph library, outside the
  repository. Section 4.4 gives what it does with the declared graph: a run starts at
  \<open>start\<close>, executes the node it is at, merges the node's update into the state
  (messages are appended to the history, never replaced; \<open>issue_type\<close> is overwritten),
  follows the edge of that node (the conditional edge calls its path function on the
  updated state and goes to the node it names) and stops at \<open>end\<close>. An exception
  raised by a node aborts the run. The engine bounds the number of steps of one run by
  its recursion limit, 25 by default.
\<close>

fun apply_update :: "state \<Rightarrow> update \<Rightarrow> state" where
  "apply_update (DictState d) (IssueTypeUpdate t) = DictState (d\<lparr>d_issue_type := Some (Some t)\<rparr>)"
| "apply_update (DictState d) (MessagesUpdate ms) =
     DictState (d\<lparr>d_messages := Some (state_messages (DictState d) @ ms)\<rparr>)"
| "apply_update (ObjState obj) (IssueTypeUpdate t) = ObjState (obj\<lparr>o_issue_type := Some t\<rparr>)"
| "apply_update (ObjState obj) (MessagesUpdate ms) = ObjState (obj\<lparr>o_messages := o_messages obj @ ms\<rparr>)"

definition next_node :: "state \<Rightarrow> pystr \<Rightarrow> pystr option" where
  "next_node st cur =
     (case map_of conditional_edges cur of
        Some path \<Rightarrow> Some (path st)
      | None \<Rightarrow> map_of edges cur)"

definition recursion_limit :: nat where
  "recursion_limit = 25"

text \<open>
  A run from node \<open>cur\<close> with \<open>n\<close> steps left gives the names of the nodes that were
  executed, in order, and either the exception that aborted the run or the final state.
\<close>

fun run_from :: "runtime \<Rightarrow> nat \<Rightarrow> pystr \<Rightarrow> state \<Rightarrow> pystr list \<times> (exn + state)" where
  "run_from rt n cur st =
     (if cur = END then ([], Inr st)
      else case n of
        0 \<Rightarrow> ([], Inl (Exception (py ''Recursion limit reached'')))
      | Suc m \<Rightarrow>
          (case map_of nodes cur of
             None \<Rightarrow> ([], Inl (Exception (py ''Unknown node: '' @ cur)))
           | Some node \<Rightarrow>
               (case node rt st of
                  Inl e \<Rightarrow> ([cur], Inl e)
                | Inr u \<Rightarrow>
                    (let st' = apply_update st u in
                     case next_node st' cur of
                       None \<Rightarrow> ([cur], Inr st')
                     | Some nxt \<Rightarrow>
                         (case run_from rt m nxt st' of (tr, res) \<Rightarrow> (cur # tr, res))))))"

text \<open>\<open>graph = builder.compile()\<close>; \<open>graph.ainvoke(state)\<close> runs from the entry point.\<close>

definition graph_invoke :: "runtime \<Rightarrow> state \<Rightarrow> pystr list \<times> (exn + state)" where
  "graph_invoke rt st =
     (case next_node st START of
        None \<Rightarrow> ([], Inr st)
      | Some entry \<Rightarrow> run_from rt recursion_limit entry st)"

section \<open>HTTP adapter: request and response models (openai\_compat.py)\<close>

record ChatMessage =
  role :: pystr
  content :: pystr

record ChatCompletionRequest =
  model :: pystr
  messages :: "ChatMessage list"
  temperature :: real
  top_p :: real
  max_tokens :: "int option"
  stream :: bool
  stream_options :: "(pystr \<times> pystr) list option"
  thread_id :: "pystr option"
  user :: "pystr option"

record ChatCompletionChoice =
  index :: int
  message :: ChatMessage
  finish_reason :: pystr
  logprobs :: "pystr option"

record ChatCompletionUsage =
  prompt_tokens :: int
  completion_tokens :: int
  total_tokens :: int

record ChatCompletionResponse =
  r_id :: pystr
  r_object :: pystr
  r_created :: int
  r_model :: pystr
  choices :: "ChatCompletionChoice list"
  usage :: ChatCompletionUsage
  r_system_fingerprint :: "pystr option"

record ChatCompletionStreamChoice =
  s_index :: int
  delta :: ChatMessage
  s_finish_reason :: "pystr option"

record ChatCompletionStreamResponse =
  c_id :: pystr
  c_object :: pystr
  c_created :: int
  c_model :: pystr
  c_choices :: "ChatCompletionStreamChoice list"
  c_system_fingerprint :: "pystr option"

record ModelObject =
  m_id :: pystr
  m_object :: pystr
  m_created :: int
  owned_by :: pystr
  permission :: "pystr list"
  root :: "pystr option"
  parent :: "pystr option"

record User =
  identity :: pystr

section \<open>HTTP adapter: collaborators\<close>

text \<open>
  The graph handed to the adapter is any object with \<open>ainvoke\<close> and
  \<open>astream_events\<close>. The input state is the dict \<open>{"messages": ...}\<close>, the config the
  dict \<open>{"configurable": {"thread_id": ..., "user_id": ...}}\<close>.
\<close>

record input_state =
  input_messages :: "message list"

record config =
  cfg_thread_id :: pystr
  cfg_user_id :: pystr

text \<open>
  A message of the final state either has a \<open>content\<close> attribute or is some other
  object, of which the adapter takes \<open>str(last_msg)\<close> (carried by \<open>WithoutContent\<close>).
  The final state is a dict whose key \<open>messages\<close> may be missing.
\<close>

datatype result_msg = WithContent pystr | WithoutContent pystr

record result =
  result_messages :: "result_msg list option"

text \<open>
  An event of \<open>astream_events\<close>: \<open>event.get("event")\<close> and
  \<open>event.get("data", {}).get("chunk", {})\<close>; the chunk either has a \<open>content\<close>
  attribute (a string, possibly empty) or has none, as the default \<open>{}\<close>.
\<close>

datatype chunk = NoContent | Chunk pystr

record event =
  event_type :: "pystr option"
  event_chunk :: chunk

text \<open>
  \<open>ainvoke\<close> returns the final state or raises; \<open>astream_events\<close> delivers events
  one by one and then either ends or raises.
\<close>

record graph =
  ainvoke :: "input_state \<Rightarrow> config \<Rightarrow> exn + result"
  astream_events :: "input_state \<Rightarrow> config \<Rightarrow> event list \<times> exn option"

text \<open>
  What the adapter reads from outside: the \<open>k\<close>-th value of \<open>str(uuid4())\<close>, the
  \<open>k\<close>-th value of \<open>int(datetime.now(UTC).timestamp())\<close>, \<open>str\<close> of the request's
  message list, pydantic's \<open>model_dump_json\<close>, and the graph registry
  \<open>get_langgraph_service().get_graph\<close>, which returns a graph or raises.
\<close>

record world =
  uuid4 :: "nat \<Rightarrow> pystr"
  now :: "nat \<Rightarrow> int"
  str_messages :: "ChatMessage list \<Rightarrow> pystr"
  model_dump_json :: "ChatCompletionStreamResponse \<Rightarrow> pystr"
  get_graph :: "pystr \<Rightarrow> exn + graph"

text \<open>
  The effects of a handler: how many UUIDs and clock readings it has drawn, and the calls
  it has made on a graph, in order.
\<close>

datatype call = Ainvoke input_state config | AstreamEvents input_state config

record io =
  n_uuid :: nat
  n_clock :: nat
  calls :: "call list"

text \<open>What a handler raises: an \<open>HTTPException\<close>, or an exception it does not catch.\<close>

datatype failure = HTTPException int pystr | Unhandled exn

datatype http_response =
  JSONResponse ChatCompletionResponse
| StreamingResponse "pystr list"

section \<open>HTTP adapter: helper functions\<close>

text \<open>
  \<open>_convert_messages_to_langgraph_format\<close>: the loop over \<open>messages\<close> appends to
  \<open>converted\<close>; a role that is none of the three appends nothing.
\<close>

fun convert_loop :: "message list \<Rightarrow> ChatMessage list \<Rightarrow> message list" where
  "convert_loop converted [] = converted"
| "convert_loop converted (msg # rest) =
     (if role msg = py ''system'' then
        convert_loop (converted @ [SystemMessage (content msg)]) rest
      else if role msg = py ''user'' then
        convert_loop (converted @ [HumanMessage (content msg)]) rest
      else if role msg = py ''assistant'' then
        convert_loop (converted @ [AIMessage (content msg)]) rest
      else convert_loop converted rest)"

definition convert_messages_to_langgraph_format :: "ChatMessage list \<Rightarrow> message list" where
  "convert_messages_to_langgraph_format msgs = convert_loop [] msgs"

text \<open>
  \<open>_get_graph_or_404\<close>: only \<open>KeyError\<close> is caught and turned into the 404; any
  other exception of the registry leaves the handler.
\<close>

definition get_graph_or_404 :: "world \<Rightarrow> pystr \<Rightarrow> failure + graph" where
  "get_graph_or_404 w graph_id =
     (case get_graph w graph_id of
        Inr g \<Rightarrow> Inr g
      | Inl (KeyError m) \<Rightarrow>
          Inl (HTTPException 404 (py ''Graph/Model '' @ [39] @ graph_id @ [39] @ py '' not found''))
      | Inl (Exception m) \<Rightarrow> Inl (Unhandled (Exception m)))"

section \<open>HTTP adapter: endpoints\<close>

definition get_model :: "world \<Rightarrow> pystr \<Rightarrow> io \<Rightarrow> (failure + ModelObject) \<times> io" where
  "get_model w model_id s =
     (case get_graph_or_404 w model_id of
        Inl f \<Rightarrow> (Inl f, s)
      | Inr g \<Rightarrow>
          (Inr \<lparr>m_id = model_id, m_object = py ''model'', m_created = now w (n_clock s),
                owned_by = py ''aegra'', permission = [], root = None, parent = None\<rparr>,
           s\<lparr>n_clock := Suc (n_clock s)\<rparr>))"

text \<open>
  \<open>_chat_completion_non_streaming\<close>. Everything is inside \<open>try\<close>; the only call that
  can raise is \<open>graph.ainvoke\<close>, and \<open>except Exception\<close> turns it into the 500.
\<close>

definition chat_completion_non_streaming ::
  "world \<Rightarrow> ChatCompletionRequest \<Rightarrow> graph \<Rightarrow> pystr \<Rightarrow> User \<Rightarrow> io
     \<Rightarrow> (failure + ChatCompletionResponse) \<times> io" where
  "chat_completion_non_streaming w request g tid usr s =
     (let converted_messages = convert_messages_to_langgraph_format (messages request);
          inp = \<lparr>input_messages = converted_messages\<rparr>;
          cfg = \<lparr>cfg_thread_id = tid, cfg_user_id = identity usr\<rparr>;
          s1 = s\<lparr>calls := calls s @ [Ainvoke inp cfg]\<rparr>
      in case ainvoke g inp cfg of
           Inl e \<Rightarrow>
             (Inl (HTTPException 500 (py ''Error processing request: '' @ exn_str e)), s1)
         | Inr res \<Rightarrow>
             (let msgs = (case result_messages res of None \<Rightarrow> [] | Some ms \<Rightarrow> ms);
                  response_content =
                    (if msgs = [] then py ''No response generated''
                     else (case last msgs of WithContent c \<Rightarrow> c | WithoutContent r \<Rightarrow> r))
              in (Inr \<lparr>r_id = py ''chatcmpl-'' @ uuid4 w (n_uuid s1),
                       r_object = py ''chat.completion'',
                       r_created = now w (n_clock s1),
                       r_model = model request,
                       choices =
                         [\<lparr>index = 0,
                           message = \<lparr>role = py ''assistant'', content = response_content\<rparr>,
                           finish_reason = py ''stop'',
                           logprobs = None\<rparr>],
                       usage =
                         \<lparr>prompt_tokens = int (length (str_messages w (messages request))),
                          completion_tokens = int (length response_content),
                          total_tokens =
                            int (length (str_messages w (messages request)))
                              + int (length response_content)\<rparr>,
                       r_system_fingerprint = None\<rparr>,
                  s1\<lparr>n_uuid := Suc (n_uuid s1), n_clock := Suc (n_clock s1)\<rparr>)))"

text \<open>
  A chunk of the stream: \<open>ChatCompletionStreamResponse\<close> with one choice, built from a
  fresh UUID and a clock reading; and the line it is sent as.
\<close>

definition stream_chunk ::
  "world \<Rightarrow> ChatCompletionRequest \<Rightarrow> io \<Rightarrow> pystr \<Rightarrow> pystr option
     \<Rightarrow> ChatCompletionStreamResponse" where
  "stream_chunk w request s text reason =
     \<lparr>c_id = py ''chatcmpl-'' @ uuid4 w (n_uuid s),
      c_object = py ''chat.completion.chunk'',
      c_created = now w (n_clock s),
      c_model = model request,
      c_choices =
        [\<lparr>s_index = 0,
          delta = \<lparr>role = py ''assistant'', content = text\<rparr>,
          s_finish_reason = reason\<rparr>],
      c_system_fingerprint = None\<rparr>"

definition sse_data :: "world \<Rightarrow> ChatCompletionStreamResponse \<Rightarrow> pystr" where
  "sse_data w response = py ''data: '' @ model_dump_json w response @ py ''\<newline>\<newline>''"

definition tick :: "io \<Rightarrow> io" where
  "tick s = s\<lparr>n_uuid := Suc (n_uuid s), n_clock := Suc (n_clock s)\<rparr>"

text \<open>
  The \<open>async for\<close> of \<open>_stream_chat_completion\<close>: the loop state is
  \<open>full_response\<close>, the effects so far and the lines yielded so far.
\<close>

fun stream_loop ::
  "world \<Rightarrow> ChatCompletionRequest \<Rightarrow> event list \<Rightarrow> pystr \<times> io \<times> pystr list
     \<Rightarrow> pystr \<times> io \<times> pystr list" where
  "stream_loop w request [] acc = acc"
| "stream_loop w request (ev # evs) (full_response, s, out) =
     (if event_type ev = Some (py ''on_chat_model_stream'') then
        (case event_chunk ev of
           NoContent \<Rightarrow> stream_loop w request evs (full_response, s, out)
         | Chunk text \<Rightarrow>
             if text \<noteq> [] then
               stream_loop w request evs
                 (full_response @ text, tick s,
                  out @ [sse_data w (stream_chunk w request s text None)])
             else stream_loop w request evs (full_response, s, out))
      else stream_loop w request evs (full_response, s, out))"

definition stream_chat_completion ::
  "world \<Rightarrow> ChatCompletionRequest \<Rightarrow> graph \<Rightarrow> pystr \<Rightarrow> User \<Rightarrow> io \<Rightarrow> pystr list \<times> io" where
  "stream_chat_completion w request g tid usr s =
     (let converted_messages = convert_messages_to_langgraph_format (messages request);
          inp = \<lparr>input_messages = converted_messages\<rparr>;
          cfg = \<lparr>cfg_thread_id = tid, cfg_user_id = identity usr\<rparr>;
          s1 = s\<lparr>calls := calls s @ [AstreamEvents inp cfg]\<rparr>
      in case astream_events g inp cfg of (events, raised) \<Rightarrow>
           (case stream_loop w request events ([], s1, []) of (full_response, s2, out) \<Rightarrow>
              (case raised of
                 Some e \<Rightarrow>
                   (out @ [py ''data: {'error': {'message': '' @ [39] @ exn_str e @ [39]
                             @ py ''}}\<newline>\<newline>''], s2)
               | None \<Rightarrow>
                   (out @ [sse_data w (stream_chunk w request s2 [] (Some (py ''stop''))),
                           py ''data: [DONE]\<newline>\<newline>''],
                    tick s2))))"

text \<open>
  \<open>create_chat_completion\<close>. \<open>request.thread_id or f"thread-{uuid4()}"\<close>: \<open>None\<close>
  and the empty string are falsy.
\<close>

definition create_chat_completion ::
  "world \<Rightarrow> ChatCompletionRequest \<Rightarrow> User \<Rightarrow> io \<Rightarrow> (failure + http_response) \<times> io" where
  "create_chat_completion w request usr s =
     (case get_graph_or_404 w (model request) of
        Inl f \<Rightarrow> (Inl f, s)
      | Inr g \<Rightarrow>
          (case (case thread_id request of
                   None \<Rightarrow> (py ''thread-'' @ uuid4 w (n_uuid s), s\<lparr>n_uuid := Suc (n_uuid s)\<rparr>)
                 | Some t \<Rightarrow>
                     if t \<noteq> [] then (t, s)
                     else (py ''thread-'' @ uuid4 w (n_uuid s), s\<lparr>n_uuid := Suc (n_uuid s)\<rparr>))
           of (tid, s1) \<Rightarrow>
             if stream request then
               (case stream_chat_completion w request g tid usr s1 of
                  (out, s2) \<Rightarrow> (Inr (StreamingResponse out), s2))
             else
               (case chat_completion_non_streaming w request g tid usr s1 of
                  (Inl f, s2) \<Rightarrow> (Inl f, s2)
                | (Inr response, s2) \<Rightarrow> (Inr (JSONResponse response), s2))))"

section \<open>Concrete collaborators for running the model\<close>

text \<open>
  A runtime whose intent model answers with stray whitespace and a capital letter, one
  whose intent model raises, and a state holding one user message.
\<close>

definition sample_rt :: runtime where
  "sample_rt =
     \<lparr>isspace = isspace_ascii,
      lower = lower_ascii,
      intent_llm = (\<lambda>ms. Inr (py '' Heating\<newline>'')),
      agent_llm = (\<lambda>ms. Inr (AIMessage (py ''Bleed the radiators.'')))\<rparr>"

definition failing_rt :: runtime where
  "failing_rt = sample_rt\<lparr>intent_llm := (\<lambda>ms. Inl (Exception (py ''Connection error'')))\<rparr>"

definition sample_state :: state where
  "sample_state =
     DictState \<lparr>d_messages = Some [HumanMessage (py ''My boiler keeps cutting out'')],
                d_issue_type = None,
                d_current_agent = None\<rparr>"

text \<open>
  A graph that answers every call with one assistant message and streams it as two
  tokens between other events; a registry that knows this graph under one id and raises
  \<open>KeyError\<close> for every other id.
\<close>

definition sample_events :: "event list" where
  "sample_events =
     [\<lparr>event_type = Some (py ''on_chain_start''), event_chunk = NoContent\<rparr>,
      \<lparr>event_type = Some (py ''on_chat_model_stream''), event_chunk = Chunk (py ''Bleed '')\<rparr>,
      \<lparr>event_type = Some (py ''on_chat_model_stream''), event_chunk = Chunk []\<rparr>,
      \<lparr>event_type = Some (py ''on_chat_model_stream''), event_chunk = Chunk (py ''radiators.'')\<rparr>,
      \<lparr>event_type = Some (py ''on_chain_end''), event_chunk = NoContent\<rparr>]"

definition sample_graph :: graph where
  "sample_graph =
     \<lparr>ainvoke = (\<lambda>inp cfg. Inr \<lparr>result_messages = Some [WithContent (py ''Bleed radiators.'')]\<rparr>),
      astream_events = (\<lambda>inp cfg. (sample_events, None))\<rparr>"

definition silent_graph :: graph where
  "silent_graph =
     \<lparr>ainvoke = (\<lambda>inp cfg. Inr \<lparr>result_messages = Some []\<rparr>),
      astream_events = (\<lambda>inp cfg. ([], None))\<rparr>"

definition sample_world :: world where
  "sample_world =
     \<lparr>uuid4 = (\<lambda>k. py ''uuid-'' @ [48 + k]),
      now = (\<lambda>k. 1700000000 + int k),
      str_messages = (\<lambda>ms. concat (map (\<lambda>m. role m @ py '': '' @ content m) ms)),
      model_dump_json = (\<lambda>r. concat (map (\<lambda>c. content (delta c)) (c_choices r))),
      get_graph =
        (\<lambda>graph_id.
           if graph_id = py ''uk_housing_agent'' then Inr sample_graph
           else if graph_id = py ''silent'' then Inr silent_graph
           else Inl (KeyError graph_id))\<rparr>"

definition sample_request :: ChatCompletionRequest where
  "sample_request =
     \<lparr>model = py ''uk_housing_agent'',
      messages =
        [\<lparr>role = py ''system'', content = py ''Be brief.''\<rparr>,
         \<lparr>role = py ''tool'', content = py ''42''\<rparr>,
         \<lparr>role = py ''user'', content = py ''My boiler keeps cutting out''\<rparr>],
      temperature = 7 / 10,
      top_p = 1,
      max_tokens = None,
      stream = False,
      stream_options = None,
      thread_id = Some (py ''thread-123''),
      user = None\<rparr>"

definition sample_user :: User where
  "sample_user = \<lparr>identity = py ''alice''\<rparr>"

definition io0 :: io where
  "io0 = \<lparr>n_uuid = 0, n_clock = 0, calls = []\<rparr>"

section \<open>Model tokens of an event stream\<close>

text \<open>
  From the words of the streaming contract, for comparison with \<open>stream_loop\<close>: the
  model tokens of a run are the non-empty contents of its \<open>on_chat_model_stream\<close>
  events, in arrival order.
\<close>

definition model_tokens :: "event list \<Rightarrow> pystr list" where
  "model_tokens events =
     map (\<lambda>ev. case event_chunk ev of Chunk t \<Rightarrow> t | NoContent \<Rightarrow> [])
       (filter (\<lambda>ev. event_type ev = Some (py ''on_chat_model_stream'')
                    \<and> (case event_chunk ev of Chunk t \<Rightarrow> t \<noteq> [] | NoContent \<Rightarrow> False))
          events)"

section \<open>Expected values of the sample run\<close>

text \<open>
  What \<open>sample_request\<close> converts to, and the response the sample world gives for a
  graph id and an assistant text.
\<close>

definition sample_input :: input_state where
  "sample_input =
     \<lparr>input_messages =
        [SystemMessage (py ''Be brief.''), HumanMessage (py ''My boiler keeps cutting out'')]\<rparr>"

definition sample_response :: "pystr \<Rightarrow> pystr \<Rightarrow> ChatCompletionResponse" where
  "sample_response graph_id text =
     \<lparr>r_id = py ''chatcmpl-'' @ py ''uuid-0'',
      r_object = py ''chat.completion'',
      r_created = 1700000000,
      r_model = graph_id,
      choices =
        [\<lparr>index = 0,
          message = \<lparr>role = py ''assistant'', content = text\<rparr>,
          finish_reason = py ''stop'',
          logprobs = None\<rparr>],
      usage = \<lparr>prompt_tokens = 58, completion_tokens = int (length text),
               total_tokens = 58 + int (length text)\<rparr>,
      r_system_fingerprint = None\<rparr>"

section \<open>Properties of the routing graph\<close>

declare run_from.simps [simp del]

lemmas names = py_def START_def END_def specialists_def

lemma next_START: "next_node st START = Some (py ''detect_intent'')"
  by (simp add: next_node_def conditional_edges_def edges_def names)

lemma next_detect: "next_node st (py ''detect_intent'') = Some (route_to_agent st)"
  by (simp add: next_node_def conditional_edges_def)

lemma next_specialist: "a \<in> specialists \<Longrightarrow> next_node st a = Some END"
  by (auto simp add: next_node_def conditional_edges_def edges_def names)

lemma route_in_specialists: "route_to_agent st \<in> specialists"
  by (cases st) (auto simp: routing_get_def routing_def specialists_def split: option.splits if_splits)

lemma END_not_specialist: "END \<notin> specialists"
  by (simp add: names)

lemma detect_not_END: "py ''detect_intent'' \<noteq> END"
  by (simp add: names)

lemma node_specialist: "a \<in> specialists \<Longrightarrow> \<exists>p. map_of nodes a = Some (agent_node p)"
  by (auto simp: nodes_def names heating_agent_def damp_agent_def repairs_agent_def general_agent_def)

lemma node_detect: "map_of nodes (py ''detect_intent'') = Some detect_intent"
  by (simp add: nodes_def)

lemma run_END: "run_from rt n END st = ([], Inr st)"
  by (simp add: run_from.simps)

lemma run_specialist:
  assumes "a \<in> specialists"
  shows "(\<exists>e. run_from rt (Suc n) a st = ([a], Inl e) \<and> (\<exists>ms. agent_llm rt ms = Inl e))
       \<or> (\<exists>st'. run_from rt (Suc n) a st = ([a], Inr st'))"
proof -
  from assms obtain p where p: "map_of nodes a = Some (agent_node p)"
    using node_specialist by blast
  from assms have ne: "a \<noteq> END" using END_not_specialist by auto
  show ?thesis
  proof (cases "agent_llm rt (SystemMessage p # state_messages st)")
    case (Inl e)
    then have "run_from rt (Suc n) a st = ([a], Inl e)"
      using p ne by (simp add: run_from.simps agent_node_def)
    with Inl show ?thesis by blast
  next
    case (Inr m)
    then have "run_from rt (Suc n) a st = ([a], Inr (apply_update st (MessagesUpdate [m])))"
      using p ne assms by (simp add: run_from.simps agent_node_def next_specialist run_END)
    then show ?thesis by blast
  qed
qed

lemma run_detect:
  "run_from rt (Suc m) (py ''detect_intent'') st =
     (case intent_llm rt (SystemMessage intent_prompt # state_messages st) of
        Inl e \<Rightarrow> ([py ''detect_intent''], Inl e)
      | Inr reply \<Rightarrow>
          (let st' = apply_update st (IssueTypeUpdate (parse_intent rt reply)) in
           case run_from rt m (route_to_agent st') st' of
             (tr, res) \<Rightarrow> (py ''detect_intent'' # tr, res)))"
  by (simp add: run_from.simps [of rt "Suc m"] detect_not_END node_detect detect_intent_def
      next_detect split: sum.splits)

lemma invoke_unfold:
  "graph_invoke rt st =
     (case intent_llm rt (SystemMessage intent_prompt # state_messages st) of
        Inl e \<Rightarrow> ([py ''detect_intent''], Inl e)
      | Inr reply \<Rightarrow>
          (let st' = apply_update st (IssueTypeUpdate (parse_intent rt reply)) in
           case run_from rt 24 (route_to_agent st') st' of
             (tr, res) \<Rightarrow> (py ''detect_intent'' # tr, res)))"
proof -
  have "recursion_limit = Suc 24" by (simp add: recursion_limit_def)
  then have "graph_invoke rt st = run_from rt (Suc 24) (py ''detect_intent'') st"
    by (simp add: graph_invoke_def next_START)
  then show ?thesis by (simp only: run_detect)
qed

text \<open>
  Claim C1. Whatever string the intent model replies with, \<open>detect_intent\<close> returns
  the update \<open>{"issue_type": t}\<close> where \<open>t\<close> is the stripped, lower-cased reply if that
  is one of \<open>heating\<close>, \<open>damp\<close>, \<open>repairs\<close>, \<open>general\<close>, and \<open>general\<close> otherwise;
  so \<open>t\<close> is always one of the four values, never empty, and parsing never raises.
\<close>

theorem detect_intent_issue_type_valid:
  assumes "intent_llm rt (SystemMessage intent_prompt # state_messages st) = Inr reply"
  shows "detect_intent rt st = Inr (IssueTypeUpdate (parse_intent rt reply))
       \<and> parse_intent rt reply =
           (if lower rt (strip (isspace rt) reply) \<in> valid_types
            then lower rt (strip (isspace rt) reply) else py ''general'')
       \<and> parse_intent rt reply \<in> valid_types
       \<and> parse_intent rt reply \<noteq> []"
  using assms by (simp add: detect_intent_def parse_intent_def Let_def valid_types_def py_def)

text \<open>
  The classifier on the reply \<open>" Heating\n"\<close>.
\<close>

theorem detect_intent_issue_type_valid_witness:
  "intent_llm sample_rt (SystemMessage intent_prompt # state_messages sample_state) = Inr (py '' Heating\<newline>'')
   \<and> detect_intent sample_rt sample_state = Inr (IssueTypeUpdate (py ''heating''))
   \<and> py ''heating'' \<in> valid_types"
  using detect_intent_issue_type_valid [of sample_rt sample_state "py '' Heating\<newline>''"]
  by (simp add: sample_rt_def parse_intent_def strip_def isspace_ascii_def lower_ascii_def
      valid_types_def py_def)

text \<open>
  Claim C3. \<open>route_to_agent\<close> is a total mapping: with \<open>t\<close> the issue type the state
  carries (\<open>None\<close> when the key is missing or the value is \<open>None\<close>), \<open>heating\<close> goes to
  \<open>heating_agent\<close>, \<open>damp\<close> to \<open>damp_agent\<close>, \<open>repairs\<close> to \<open>repairs_agent\<close>, and every
  other value, \<open>general\<close> included, to \<open>general_agent\<close>; the result is always one of the
  four specialists.
\<close>

theorem route_to_agent_total_mapping:
  "(let t = (case st of
               DictState d \<Rightarrow> (case d_issue_type d of None \<Rightarrow> None | Some v \<Rightarrow> v)
             | ObjState obj \<Rightarrow> o_issue_type obj)
    in route_to_agent st =
         (if t = Some (py ''heating'') then py ''heating_agent''
          else if t = Some (py ''damp'') then py ''damp_agent''
          else if t = Some (py ''repairs'') then py ''repairs_agent''
          else py ''general_agent''))
   \<and> route_to_agent st \<in> specialists"
  by (cases st)
     (auto simp: routing_get_def routing_def specialists_def py_def Let_def
           split: option.splits if_splits)

lemma detect_not_specialist: "py ''detect_intent'' \<notin> specialists"
  by (simp add: names)

lemma next_to_detect: "next_node st c = Some (py ''detect_intent'') \<Longrightarrow> c = START"
proof (cases "c = py ''detect_intent''")
  case True
  assume "next_node st c = Some (py ''detect_intent'')"
  with True have "route_to_agent st = py ''detect_intent''" by (simp add: next_detect)
  with route_in_specialists [of st] detect_not_specialist show ?thesis by simp
next
  case False
  assume "next_node st c = Some (py ''detect_intent'')"
  with False show ?thesis
    by (auto simp: next_node_def conditional_edges_def edges_def names split: if_splits)
qed


lemma run_specialist24:
  assumes "a \<in> specialists"
  shows "(\<exists>e. run_from rt 24 a st = ([a], Inl e) \<and> (\<exists>ms. agent_llm rt ms = Inl e))
       \<or> (\<exists>st'. run_from rt 24 a st = ([a], Inr st'))"
proof -
  have "(24::nat) = Suc 23" by simp
  then show ?thesis using run_specialist [OF assms, of rt 23 st] by (simp only:)
qed

lemma run_specialist_ok:
  assumes "a \<in> specialists" and "\<forall>ms. \<not> isl (agent_llm rt ms)"
  shows "\<exists>st'. run_from rt 24 a st = ([a], Inr st')"
proof -
  from run_specialist24 [OF assms(1), of rt st] show ?thesis
  proof
    assume "\<exists>e. run_from rt 24 a st = ([a], Inl e) \<and> (\<exists>ms. agent_llm rt ms = Inl e)"
    then obtain e ms where m: "agent_llm rt ms = Inl e" by blast
    from assms(2) have "\<not> isl (agent_llm rt ms)" by (rule spec)
    with m show ?thesis by simp
  qed
qed

lemma fst_cons_trace: "fst (case p of (tr, res) \<Rightarrow> (x # tr, res)) = x # fst p"
  by (cases p) simp

lemma run_specialist_trace:
  assumes "a \<in> specialists"
  shows "fst (run_from rt 24 a st) = [a]"
  using run_specialist24 [OF assms, of rt st] by (elim disjE exE conjE) simp_all

text \<open>
  Claim C2, as amended. If the intent model returns a reply and no call of the agent model
  raises, a run executes \<open>detect_intent\<close> once, then exactly the specialist that
  \<open>route_to_agent\<close> names, and ends with a final state. In every run, aborted or not,
  \<open>detect_intent\<close> is executed exactly once, first, and at most one specialist after
  it. Every specialist has \<open>end\<close> as its only successor, and only \<open>start\<close> leads to
  \<open>detect_intent\<close>.
\<close>

theorem routing_graph_single_pass:
  "(intent_llm rt (SystemMessage intent_prompt # state_messages st) = Inr reply
      \<and> (\<forall>ms. \<not> isl (agent_llm rt ms))
    \<longrightarrow> (\<exists>st'. graph_invoke rt st =
               ([py ''detect_intent'',
                 route_to_agent (apply_update st (IssueTypeUpdate (parse_intent rt reply)))],
                Inr st')))
   \<and> (fst (graph_invoke rt st) = [py ''detect_intent'']
        \<or> (\<exists>a\<in>specialists. fst (graph_invoke rt st) = [py ''detect_intent'', a]))
   \<and> (\<forall>a\<in>specialists. next_node st a = Some END)
   \<and> (\<forall>c. next_node st c = Some (py ''detect_intent'') \<longrightarrow> c = START)"
proof (intro conjI impI)
  assume h: "intent_llm rt (SystemMessage intent_prompt # state_messages st) = Inr reply
             \<and> (\<forall>ms. \<not> isl (agent_llm rt ms))"
  let ?st = "apply_update st (IssueTypeUpdate (parse_intent rt reply))"
  from h have ok: "\<forall>ms. \<not> isl (agent_llm rt ms)" by (rule conjunct2)
  from h have i: "intent_llm rt (SystemMessage intent_prompt # state_messages st) = Inr reply"
    by (rule conjunct1)
  from run_specialist_ok [OF route_in_specialists ok, of ?st ?st]
  obtain st' where "run_from rt 24 (route_to_agent ?st) ?st = ([route_to_agent ?st], Inr st')" ..
  then have "graph_invoke rt st = ([py ''detect_intent'', route_to_agent ?st], Inr st')"
    unfolding invoke_unfold i by (simp add: Let_def)
  then show "\<exists>st'. graph_invoke rt st = ([py ''detect_intent'', route_to_agent ?st], Inr st')" ..
next
  show "fst (graph_invoke rt st) = [py ''detect_intent'']
        \<or> (\<exists>a\<in>specialists. fst (graph_invoke rt st) = [py ''detect_intent'', a])"
  proof (cases "intent_llm rt (SystemMessage intent_prompt # state_messages st)")
    case (Inl e)
    then have "fst (graph_invoke rt st) = [py ''detect_intent'']"
      unfolding invoke_unfold by simp
    then show ?thesis ..
  next
    case (Inr reply)
    let ?st = "apply_update st (IssueTypeUpdate (parse_intent rt reply))"
    have "fst (run_from rt 24 (route_to_agent ?st) ?st) = [route_to_agent ?st]"
      by (rule run_specialist_trace [OF route_in_specialists])
    then have "fst (graph_invoke rt st) = [py ''detect_intent'', route_to_agent ?st]"
      unfolding invoke_unfold Inr by (simp add: Let_def fst_cons_trace)
    with route_in_specialists [of ?st] show ?thesis by blast
  qed
next
  show "\<forall>a\<in>specialists. next_node st a = Some END"
    by (simp add: next_specialist)
next
  show "\<forall>c. next_node st c = Some (py ''detect_intent'') \<longrightarrow> c = START"
    using next_to_detect by blast
qed

text \<open>
  Claim C2 as stated fails when the intent model raises: \<open>detect_intent\<close> is executed,
  no specialist is, and the run ends with the exception instead of a final state.
\<close>

theorem routing_graph_aborted_run_counterexample:
  "graph_invoke failing_rt sample_state =
     ([py ''detect_intent''], Inl (Exception (py ''Connection error'')))"
  by (simp add: invoke_unfold failing_rt_def sample_rt_def)


lemma sample_parse: "parse_intent sample_rt (py '' Heating\<newline>'') = py ''heating''"
  by (simp add: sample_rt_def parse_intent_def strip_def isspace_ascii_def lower_ascii_def
      valid_types_def py_def)

lemma sample_route:
  "route_to_agent (apply_update sample_state (IssueTypeUpdate (py ''heating''))) = py ''heating_agent''"
  by (simp add: sample_state_def routing_get_def routing_def py_def)

text \<open>
  The run of the sample runtime on one user message goes through \<open>detect_intent\<close> and
  \<open>heating_agent\<close>.
\<close>

theorem routing_graph_single_pass_witness:
  "intent_llm sample_rt (SystemMessage intent_prompt # state_messages sample_state)
     = Inr (py '' Heating\<newline>'')
   \<and> (\<forall>ms. \<not> isl (agent_llm sample_rt ms))
   \<and> (\<exists>st'. graph_invoke sample_rt sample_state =
          ([py ''detect_intent'', py ''heating_agent''], Inr st'))
   \<and> py ''heating_agent'' \<in> specialists
   \<and> next_node sample_state (py ''heating_agent'') = Some END"
proof -
  have i: "intent_llm sample_rt (SystemMessage intent_prompt # state_messages sample_state)
     = Inr (py '' Heating\<newline>'')"
    by (simp add: sample_rt_def)
  have a: "\<forall>ms. \<not> isl (agent_llm sample_rt ms)"
    by (simp add: sample_rt_def)
  have s: "py ''heating_agent'' \<in> specialists" by (simp add: specialists_def)
  note t = routing_graph_single_pass [of sample_rt sample_state "py '' Heating\<newline>''"]
  have r: "\<exists>st'. graph_invoke sample_rt sample_state =
          ([py ''detect_intent'', py ''heating_agent''], Inr st')"
    using t [THEN conjunct1, THEN mp, OF conjI [OF i a]]
    unfolding sample_parse sample_route .
  have n: "next_node sample_state (py ''heating_agent'') = Some END"
    using t [THEN conjunct2, THEN conjunct2, THEN conjunct1, THEN bspec, OF s] .
  from i a r s n show ?thesis by (intro conjI)
qed

section \<open>Properties of the HTTP adapter\<close>

lemma convert_loop_acc:
  "convert_loop acc msgs = acc @ convert_loop [] msgs"
proof (induction msgs arbitrary: acc)
  case Nil
  show ?case by simp
next
  case (Cons m ms)
  show ?case
    using Cons.IH [of "acc @ [SystemMessage (content m)]"]
      Cons.IH [of "acc @ [HumanMessage (content m)]"]
      Cons.IH [of "acc @ [AIMessage (content m)]"]
      Cons.IH [of "[SystemMessage (content m)]"]
      Cons.IH [of "[HumanMessage (content m)]"]
      Cons.IH [of "[AIMessage (content m)]"]
      Cons.IH [of acc]
    by simp
qed

lemma py_role_distinct:
  "py ''system'' \<noteq> py ''user''" "py ''system'' \<noteq> py ''assistant''" "py ''user'' \<noteq> py ''assistant''"
  by (simp_all add: py_def)

text \<open>
  Claim C7. The conversion is a filter followed by a map: every message whose role is
  \<open>system\<close>, \<open>user\<close> or \<open>assistant\<close> becomes exactly one internal message of the
  corresponding kind with the same content, in the order of the input; every other message
  is dropped without an error; so the output is never longer than the input.
\<close>

theorem convert_messages_map_filter:
  "convert_messages_to_langgraph_format msgs =
     map (\<lambda>m. if role m = py ''system'' then SystemMessage (content m)
               else if role m = py ''user'' then HumanMessage (content m)
               else AIMessage (content m))
         (filter (\<lambda>m. role m = py ''system'' \<or> role m = py ''user'' \<or> role m = py ''assistant'') msgs)
   \<and> length (convert_messages_to_langgraph_format msgs) \<le> length msgs"
proof -
  let ?f = "\<lambda>m. if role m = py ''system'' then SystemMessage (content m)
               else if role m = py ''user'' then HumanMessage (content m)
               else AIMessage (content m)"
  let ?p = "\<lambda>m. role m = py ''system'' \<or> role m = py ''user'' \<or> role m = py ''assistant''"
  have e: "convert_loop [] msgs = map ?f (filter ?p msgs)"
  proof (induction msgs)
    case Nil
    show ?case by simp
  next
    case (Cons m ms)
    show ?case
      using Cons.IH convert_loop_acc [of "[SystemMessage (content m)]" ms]
        convert_loop_acc [of "[HumanMessage (content m)]" ms]
        convert_loop_acc [of "[AIMessage (content m)]" ms]
      by simp
  qed
  have "length (map ?f (filter ?p msgs)) \<le> length msgs" by simp
  with e show ?thesis by (simp add: convert_messages_to_langgraph_format_def)
qed

lemma non_streaming_response:
  assumes "chat_completion_non_streaming w request g tid usr s = (Inr r, s')"
  shows "\<exists>response_content.
           choices r = [\<lparr>index = 0,
                          message = \<lparr>role = py ''assistant'', content = response_content\<rparr>,
                          finish_reason = py ''stop'', logprobs = None\<rparr>]
         \<and> r_object r = py ''chat.completion''
         \<and> r_model r = model request
         \<and> usage r = \<lparr>prompt_tokens = int (length (str_messages w (messages request))),
                       completion_tokens = int (length response_content),
                       total_tokens = int (length (str_messages w (messages request)))
                                        + int (length response_content)\<rparr>"
  using assms
  by (auto simp: chat_completion_non_streaming_def Let_def split: sum.splits)

lemma create_non_streaming:
  assumes "\<not> stream request"
    and "create_chat_completion w request usr s = (Inr resp, s')"
  shows "\<exists>g tid s1 r. chat_completion_non_streaming w request g tid usr s1 = (Inr r, s')
           \<and> resp = JSONResponse r"
  using assms
  by (auto simp: create_chat_completion_def split: sum.splits prod.splits option.splits if_splits)

text \<open>
  Claim C5. A request with \<open>stream = false\<close> that completes without error returns a
  \<open>chat.completion\<close> object with exactly one choice, whose \<open>finish_reason\<close> is
  \<open>stop\<close> and whose message has role \<open>assistant\<close>.
\<close>

theorem non_streaming_single_choice:
  assumes "\<not> stream request"
    and "create_chat_completion w request usr s = (Inr resp, s')"
  shows "\<exists>r. resp = JSONResponse r
           \<and> length (choices r) = 1
           \<and> map finish_reason (choices r) = [py ''stop'']
           \<and> map (\<lambda>c. role (message c)) (choices r) = [py ''assistant'']
           \<and> r_object r = py ''chat.completion''"
proof -
  from create_non_streaming [OF assms] obtain g tid s1 r
    where n: "chat_completion_non_streaming w request g tid usr s1 = (Inr r, s')"
      and r: "resp = JSONResponse r" by blast
  from non_streaming_response [OF n] obtain c
    where "choices r = [\<lparr>index = 0, message = \<lparr>role = py ''assistant'', content = c\<rparr>,
                          finish_reason = py ''stop'', logprobs = None\<rparr>]"
      and "r_object r = py ''chat.completion''" by blast
  with r show ?thesis by simp
qed

text \<open>
  Claim C8. In a successful non-streaming response \<open>prompt_tokens\<close> is the length of
  \<open>str(request.messages)\<close>, \<open>completion_tokens\<close> is the length of the returned
  assistant content, and \<open>total_tokens\<close> is their sum.
\<close>

theorem usage_is_length_proxy:
  assumes "\<not> stream request"
    and "create_chat_completion w request usr s = (Inr (JSONResponse r), s')"
  shows "prompt_tokens (usage r) = int (length (str_messages w (messages request)))
       \<and> map (\<lambda>c. int (length (content (message c)))) (choices r) = [completion_tokens (usage r)]
       \<and> total_tokens (usage r) = prompt_tokens (usage r) + completion_tokens (usage r)"
proof -
  from create_non_streaming [OF assms] obtain g tid s1
    where n: "chat_completion_non_streaming w request g tid usr s1 = (Inr r, s')" by auto
  from non_streaming_response [OF n] show ?thesis by auto
qed

text \<open>
  Claim C10. If \<open>ainvoke\<close> returns a final state whose message list is empty, the
  non-streaming handler raises nothing and returns one choice with role \<open>assistant\<close>,
  content \<open>No response generated\<close> and \<open>finish_reason\<close> \<open>stop\<close>.
\<close>

theorem empty_result_placeholder:
  assumes "ainvoke g \<lparr>input_messages = convert_messages_to_langgraph_format (messages request)\<rparr>
             \<lparr>cfg_thread_id = tid, cfg_user_id = identity usr\<rparr> = Inr res"
    and "result_messages res = Some []"
  shows "\<exists>r s'. chat_completion_non_streaming w request g tid usr s = (Inr r, s')
           \<and> map (\<lambda>c. content (message c)) (choices r) = [py ''No response generated'']
           \<and> map (\<lambda>c. role (message c)) (choices r) = [py ''assistant'']
           \<and> map finish_reason (choices r) = [py ''stop'']"
  using assms by (simp add: chat_completion_non_streaming_def Let_def)

lemma tick_calls: "calls (tick s) = calls s"
  by (simp add: tick_def)

lemma model_tokens_Nil: "model_tokens [] = []"
  by (simp add: model_tokens_def)

lemma model_tokens_Cons:
  "model_tokens (ev # evs) =
     (if event_type ev = Some (py ''on_chat_model_stream'') then
        (case event_chunk ev of
           NoContent \<Rightarrow> model_tokens evs
         | Chunk t \<Rightarrow> if t \<noteq> [] then t # model_tokens evs else model_tokens evs)
      else model_tokens evs)"
  by (simp add: model_tokens_def split: chunk.splits)

lemma stream_chunk_fields:
  "c_object (stream_chunk w request s t reason) = py ''chat.completion.chunk''"
  "map s_finish_reason (c_choices (stream_chunk w request s t reason)) = [reason]"
  "map (\<lambda>c. content (delta c)) (c_choices (stream_chunk w request s t reason)) = [t]"
  "map (\<lambda>c. role (delta c)) (c_choices (stream_chunk w request s t reason)) = [py ''assistant'']"
  "c_model (stream_chunk w request s t reason) = model request"
  by (simp_all add: stream_chunk_def)

lemma stream_loop_shape:
  "\<exists>deltas s'.
     stream_loop w request evs (full, s, out) =
       (full @ concat (model_tokens evs), s', out @ map (sse_data w) deltas)
     \<and> (\<forall>d\<in>set deltas. c_object d = py ''chat.completion.chunk''
                        \<and> map s_finish_reason (c_choices d) = [None])
     \<and> map (\<lambda>d. map (\<lambda>c. content (delta c)) (c_choices d)) deltas
         = map (\<lambda>t. [t]) (model_tokens evs)
     \<and> calls s' = calls s"
proof (induction evs arbitrary: full s out)
  case Nil
  have "stream_loop w request [] (full, s, out) = (full @ concat (model_tokens []), s, out @ map (sse_data w) [])"
    by (simp add: model_tokens_Nil)
  then show ?case by (intro exI [of _ "[]"] exI [of _ s]) (simp add: model_tokens_Nil)
next
  case (Cons ev evs)
  show ?case
  proof (cases "event_type ev = Some (py ''on_chat_model_stream'')
                \<and> (\<exists>t. event_chunk ev = Chunk t \<and> t \<noteq> [])")
    case True
    then obtain t where t: "event_chunk ev = Chunk t" "t \<noteq> []"
      and e: "event_type ev = Some (py ''on_chat_model_stream'')" by blast
    let ?d = "stream_chunk w request s t None"
    from Cons.IH [of "full @ t" "tick s" "out @ [sse_data w ?d]"]
    obtain deltas s' where
      l: "stream_loop w request evs (full @ t, tick s, out @ [sse_data w ?d]) =
           ((full @ t) @ concat (model_tokens evs), s', (out @ [sse_data w ?d]) @ map (sse_data w) deltas)"
      and p: "\<forall>d\<in>set deltas. c_object d = py ''chat.completion.chunk''
                        \<and> map s_finish_reason (c_choices d) = [None]"
      and c: "map (\<lambda>d. map (\<lambda>c. content (delta c)) (c_choices d)) deltas
               = map (\<lambda>t. [t]) (model_tokens evs)"
      and k: "calls s' = calls (tick s)" by blast
    have m: "model_tokens (ev # evs) = t # model_tokens evs"
      using t e by (simp add: model_tokens_Cons)
    have "stream_loop w request (ev # evs) (full, s, out) =
            (full @ concat (model_tokens (ev # evs)), s', out @ map (sse_data w) (?d # deltas))"
      using t e l by (simp add: m)
    moreover have "\<forall>d\<in>set (?d # deltas). c_object d = py ''chat.completion.chunk''
                        \<and> map s_finish_reason (c_choices d) = [None]"
      using p by (simp add: stream_chunk_fields)
    moreover have "map (\<lambda>d. map (\<lambda>c. content (delta c)) (c_choices d)) (?d # deltas)
               = map (\<lambda>t. [t]) (model_tokens (ev # evs))"
      using c by (simp add: m stream_chunk_fields)
    moreover have "calls s' = calls s" using k by (simp add: tick_calls)
    ultimately show ?thesis by blast
  next
    case False
    then have m: "model_tokens (ev # evs) = model_tokens evs"
      by (auto simp: model_tokens_Cons split: chunk.splits)
    from False have "stream_loop w request (ev # evs) (full, s, out)
                     = stream_loop w request evs (full, s, out)"
      by (auto split: chunk.splits)
    with Cons.IH [of full s out] show ?thesis by (simp only: m)
  qed
qed

text \<open>
  Claim C4. If the event stream of the graph ends without raising, the lines yielded are
  the delta chunks, one per model token and in the order of the tokens, each with object
  \<open>chat.completion.chunk\<close> and \<open>finish_reason\<close> null, then one chunk with
  \<open>finish_reason\<close> \<open>stop\<close>, then the line \<open>data: [DONE]\<close> followed by two
  newlines.
\<close>

theorem stream_sequence_shape:
  assumes "astream_events g
             \<lparr>input_messages = convert_messages_to_langgraph_format (messages request)\<rparr>
             \<lparr>cfg_thread_id = tid, cfg_user_id = identity usr\<rparr> = (events, None)"
  shows "\<exists>deltas final.
           fst (stream_chat_completion w request g tid usr s) =
             map (sse_data w) deltas @ [sse_data w final, py ''data: [DONE]\<newline>\<newline>'']
         \<and> (\<forall>d\<in>set deltas. c_object d = py ''chat.completion.chunk''
                            \<and> map s_finish_reason (c_choices d) = [None])
         \<and> c_object final = py ''chat.completion.chunk''
         \<and> map s_finish_reason (c_choices final) = [Some (py ''stop'')]
         \<and> map (\<lambda>d. map (\<lambda>c. content (delta c)) (c_choices d)) deltas
              = map (\<lambda>t. [t]) (model_tokens events)"
proof -
  let ?s1 = "s\<lparr>calls := calls s @ [AstreamEvents
               \<lparr>input_messages = convert_messages_to_langgraph_format (messages request)\<rparr>
               \<lparr>cfg_thread_id = tid, cfg_user_id = identity usr\<rparr>]\<rparr>"
  from stream_loop_shape [of w request events "[]" ?s1 "[]"]
  obtain deltas s' where
    l: "stream_loop w request events ([], ?s1, []) =
          ([] @ concat (model_tokens events), s', [] @ map (sse_data w) deltas)"
    and p: "\<forall>d\<in>set deltas. c_object d = py ''chat.completion.chunk''
                        \<and> map s_finish_reason (c_choices d) = [None]"
    and c: "map (\<lambda>d. map (\<lambda>c. content (delta c)) (c_choices d)) deltas
             = map (\<lambda>t. [t]) (model_tokens events)" by blast
  let ?final = "stream_chunk w request s' [] (Some (py ''stop''))"
  have f1: "fst (stream_chat_completion w request g tid usr s) =
          map (sse_data w) deltas @ [sse_data w ?final, py ''data: [DONE]\<newline>\<newline>'']"
    using assms l by (simp add: stream_chat_completion_def Let_def)
  have f2: "c_object ?final = py ''chat.completion.chunk''"
    and f3: "map s_finish_reason (c_choices ?final) = [Some (py ''stop'')]"
    by (simp_all add: stream_chunk_fields)
  from f1 p f2 f3 c
  have "fst (stream_chat_completion w request g tid usr s) =
             map (sse_data w) deltas @ [sse_data w ?final, py ''data: [DONE]\<newline>\<newline>'']
         \<and> (\<forall>d\<in>set deltas. c_object d = py ''chat.completion.chunk''
                            \<and> map s_finish_reason (c_choices d) = [None])
         \<and> c_object ?final = py ''chat.completion.chunk''
         \<and> map s_finish_reason (c_choices ?final) = [Some (py ''stop'')]
         \<and> map (\<lambda>d. map (\<lambda>c. content (delta c)) (c_choices d)) deltas
              = map (\<lambda>t. [t]) (model_tokens events)"
    by (intro conjI)
  then show ?thesis by (intro exI)
qed

text \<open>
  Claim C9. If the registry raises \<open>KeyError\<close> for a graph id, the chat-completion
  and the model-detail endpoints raise \<open>HTTPException\<close> with status 404 and a detail
  that quotes the id, and the handler's effects are unchanged: no graph is called.
\<close>

theorem unknown_model_is_404:
  assumes "get_graph w graph_id = Inl (KeyError m)"
  shows "get_graph_or_404 w graph_id =
           Inl (HTTPException 404 (py ''Graph/Model '' @ [39] @ graph_id @ [39] @ py '' not found''))
       \<and> (model request = graph_id \<longrightarrow>
            create_chat_completion w request usr s =
              (Inl (HTTPException 404
                 (py ''Graph/Model '' @ [39] @ graph_id @ [39] @ py '' not found'')), s)
            \<and> calls (snd (create_chat_completion w request usr s)) = calls s)
       \<and> get_model w graph_id s =
            (Inl (HTTPException 404
               (py ''Graph/Model '' @ [39] @ graph_id @ [39] @ py '' not found'')), s)"
  using assms by (simp add: get_graph_or_404_def create_chat_completion_def get_model_def)

lemma get_graph_or_404_ok: "get_graph w graph_id = Inr g \<Longrightarrow> get_graph_or_404 w graph_id = Inr g"
  by (simp add: get_graph_or_404_def)

lemma non_streaming_calls:
  "calls (snd (chat_completion_non_streaming w request g tid usr s)) =
     calls s @ [Ainvoke \<lparr>input_messages = convert_messages_to_langgraph_format (messages request)\<rparr>
                        \<lparr>cfg_thread_id = tid, cfg_user_id = identity usr\<rparr>]"
  by (simp add: chat_completion_non_streaming_def Let_def split: sum.splits)

lemma stream_calls:
  "calls (snd (stream_chat_completion w request g tid usr s)) =
     calls s @ [AstreamEvents \<lparr>input_messages = convert_messages_to_langgraph_format (messages request)\<rparr>
                              \<lparr>cfg_thread_id = tid, cfg_user_id = identity usr\<rparr>]"
proof -
  let ?inp = "\<lparr>input_messages = convert_messages_to_langgraph_format (messages request)\<rparr>"
  let ?cfg = "\<lparr>cfg_thread_id = tid, cfg_user_id = identity usr\<rparr>"
  let ?s1 = "s\<lparr>calls := calls s @ [AstreamEvents ?inp ?cfg]\<rparr>"
  obtain events raised where a: "astream_events g ?inp ?cfg = (events, raised)"
    by (cases "astream_events g ?inp ?cfg")
  from stream_loop_shape [of w request events "[]" ?s1 "[]"]
  obtain deltas s' where
    l: "stream_loop w request events ([], ?s1, []) =
          ([] @ concat (model_tokens events), s', [] @ map (sse_data w) deltas)"
    and k: "calls s' = calls ?s1" by blast
  show ?thesis
    using a l k by (simp add: stream_chat_completion_def Let_def tick_calls split: option.splits)
qed

lemma create_calls:
  assumes "get_graph w (model request) = Inr g"
  shows "calls (snd (create_chat_completion w request usr s)) =
           calls s @ [(if stream request then AstreamEvents else Ainvoke)
              \<lparr>input_messages = convert_messages_to_langgraph_format (messages request)\<rparr>
              \<lparr>cfg_thread_id =
                 (case thread_id request of
                    None \<Rightarrow> py ''thread-'' @ uuid4 w (n_uuid s)
                  | Some t \<Rightarrow> if t \<noteq> [] then t else py ''thread-'' @ uuid4 w (n_uuid s)),
               cfg_user_id = identity usr\<rparr>]"
proof -
  have c: "\<And>tid s1. calls (snd (case chat_completion_non_streaming w request g tid usr s1 of
                 (Inl f, s2) \<Rightarrow> (Inl f, s2)
               | (Inr response, s2) \<Rightarrow> (Inr (JSONResponse response), s2)))
            = calls (snd (chat_completion_non_streaming w request g tid usr s1))"
    by (simp split: prod.splits sum.splits)
  have d: "\<And>tid s1. calls (snd (case stream_chat_completion w request g tid usr s1 of
                  (out, s2) \<Rightarrow> (Inr (StreamingResponse out), s2)))
            = calls (snd (stream_chat_completion w request g tid usr s1))"
    by (simp split: prod.splits)
  show ?thesis
    unfolding create_chat_completion_def get_graph_or_404_ok [OF assms]
    by (simp add: c d non_streaming_calls stream_calls split: option.splits)
qed

text \<open>
  Claim C6, as amended. For a request whose model resolves to a graph: a non-empty
  \<open>thread_id\<close> is the thread id of the config passed to the graph, in both modes; a
  missing or empty \<open>thread_id\<close> is replaced by \<open>thread-\<close> followed by a newly drawn
  UUID.
\<close>

theorem thread_id_in_run_config:
  assumes "get_graph w (model request) = Inr g"
  shows "(\<forall>t. thread_id request = Some t \<and> t \<noteq> [] \<longrightarrow>
            calls (snd (create_chat_completion w request usr s)) =
              calls s @ [(if stream request then AstreamEvents else Ainvoke)
                 \<lparr>input_messages = convert_messages_to_langgraph_format (messages request)\<rparr>
                 \<lparr>cfg_thread_id = t, cfg_user_id = identity usr\<rparr>])
       \<and> (thread_id request = None \<or> thread_id request = Some [] \<longrightarrow>
            calls (snd (create_chat_completion w request usr s)) =
              calls s @ [(if stream request then AstreamEvents else Ainvoke)
                 \<lparr>input_messages = convert_messages_to_langgraph_format (messages request)\<rparr>
                 \<lparr>cfg_thread_id = py ''thread-'' @ uuid4 w (n_uuid s),
                  cfg_user_id = identity usr\<rparr>])"
  unfolding create_calls [OF assms] by auto

lemma sample_convert:
  "convert_messages_to_langgraph_format (messages sample_request) = input_messages sample_input"
  by (simp add: convert_messages_to_langgraph_format_def sample_request_def sample_input_def py_def)

lemma sample_get_graph:
  "get_graph_or_404 sample_world (py ''uk_housing_agent'') = Inr sample_graph"
  "get_graph_or_404 sample_world (py ''silent'') = Inr silent_graph"
  by (simp_all add: get_graph_or_404_def sample_world_def py_def)

lemma sample_str_messages:
  "length (str_messages sample_world (messages sample_request)) = 58"
  by (simp add: sample_world_def sample_request_def py_def)

lemma sample_non_streaming:
  "chat_completion_non_streaming sample_world sample_request sample_graph (py ''thread-123'')
     sample_user io0 =
   (Inr (sample_response (py ''uk_housing_agent'') (py ''Bleed radiators.'')),
    \<lparr>n_uuid = 1, n_clock = 1,
     calls = [Ainvoke sample_input \<lparr>cfg_thread_id = py ''thread-123'', cfg_user_id = py ''alice''\<rparr>]\<rparr>)"
proof -
  have m: "model sample_request = py ''uk_housing_agent''" by (simp add: sample_request_def)
  have u: "uuid4 sample_world 0 = py ''uuid-0''" "now sample_world 0 = 1700000000"
    by (simp_all add: sample_world_def py_def)
  have i: "\<lparr>input_messages = input_messages sample_input\<rparr> = sample_input"
    by (simp add: sample_input_def)
  show ?thesis
    unfolding chat_completion_non_streaming_def sample_convert i
    by (simp add: Let_def sample_graph_def sample_user_def io0_def sample_response_def m u
        sample_str_messages)
qed

lemma sample_create:
  "create_chat_completion sample_world sample_request sample_user io0 =
   (Inr (JSONResponse (sample_response (py ''uk_housing_agent'') (py ''Bleed radiators.''))),
    \<lparr>n_uuid = 1, n_clock = 1,
     calls = [Ainvoke sample_input \<lparr>cfg_thread_id = py ''thread-123'', cfg_user_id = py ''alice''\<rparr>]\<rparr>)"
proof -
  have m: "model sample_request = py ''uk_housing_agent''" by (simp add: sample_request_def)
  have t: "thread_id sample_request = Some (py ''thread-123'')" "\<not> stream sample_request"
    by (simp_all add: sample_request_def)
  have n: "py ''thread-123'' \<noteq> []" by (simp add: py_def)
  show ?thesis
    unfolding create_chat_completion_def m sample_get_graph
    by (simp add: t n sample_non_streaming)
qed

lemma sample_io_calls:
  "calls io0 = []" "n_uuid io0 = 0" "identity sample_user = py ''alice''"
  by (simp_all add: io0_def sample_user_def)

lemma sample_input_eq:
  "\<lparr>input_messages = convert_messages_to_langgraph_format (messages sample_request)\<rparr> = sample_input"
  by (simp add: sample_convert sample_input_def)

text \<open>
  The sample request completes with the sample response.
\<close>

theorem non_streaming_single_choice_witness:
  "\<not> stream sample_request
   \<and> create_chat_completion sample_world sample_request sample_user io0 =
       (Inr (JSONResponse (sample_response (py ''uk_housing_agent'') (py ''Bleed radiators.''))),
        \<lparr>n_uuid = 1, n_clock = 1,
         calls = [Ainvoke sample_input
                    \<lparr>cfg_thread_id = py ''thread-123'', cfg_user_id = py ''alice''\<rparr>]\<rparr>)
   \<and> (\<exists>r. JSONResponse (sample_response (py ''uk_housing_agent'') (py ''Bleed radiators.''))
              = JSONResponse r
           \<and> length (choices r) = 1
           \<and> map finish_reason (choices r) = [py ''stop'']
           \<and> map (\<lambda>c. role (message c)) (choices r) = [py ''assistant'']
           \<and> r_object r = py ''chat.completion'')"
proof -
  have h: "\<not> stream sample_request" by (simp add: sample_request_def)
  from h sample_create non_streaming_single_choice [OF h sample_create]
  show ?thesis by (intro conjI)
qed

text \<open>
  The usage of the sample response: 58 + 16 = 74.
\<close>

theorem usage_is_length_proxy_witness:
  "\<not> stream sample_request
   \<and> create_chat_completion sample_world sample_request sample_user io0 =
       (Inr (JSONResponse (sample_response (py ''uk_housing_agent'') (py ''Bleed radiators.''))),
        \<lparr>n_uuid = 1, n_clock = 1,
         calls = [Ainvoke sample_input
                    \<lparr>cfg_thread_id = py ''thread-123'', cfg_user_id = py ''alice''\<rparr>]\<rparr>)
   \<and> prompt_tokens (usage (sample_response (py ''uk_housing_agent'') (py ''Bleed radiators.''))) = 58
   \<and> completion_tokens (usage (sample_response (py ''uk_housing_agent'') (py ''Bleed radiators.''))) = 16
   \<and> total_tokens (usage (sample_response (py ''uk_housing_agent'') (py ''Bleed radiators.''))) = 74"
proof -
  have h: "\<not> stream sample_request" by (simp add: sample_request_def)
  have l: "int (length (py ''Bleed radiators.'')) = 16" by (simp add: py_def)
  from usage_is_length_proxy [OF h sample_create]
  have "prompt_tokens (usage (sample_response (py ''uk_housing_agent'') (py ''Bleed radiators.''))) = 58
      \<and> completion_tokens (usage (sample_response (py ''uk_housing_agent'') (py ''Bleed radiators.''))) = 16
      \<and> total_tokens (usage (sample_response (py ''uk_housing_agent'') (py ''Bleed radiators.''))) = 74"
    by (simp add: sample_str_messages sample_response_def l)
  with h sample_create show ?thesis by (intro conjI) simp_all
qed

text \<open>
  The graph that returns no message.
\<close>

theorem empty_result_placeholder_witness:
  "ainvoke silent_graph
     \<lparr>input_messages = convert_messages_to_langgraph_format (messages sample_request)\<rparr>
     \<lparr>cfg_thread_id = py ''thread-123'', cfg_user_id = identity sample_user\<rparr>
     = Inr \<lparr>result_messages = Some []\<rparr>
   \<and> (\<exists>r s'. chat_completion_non_streaming sample_world sample_request silent_graph
                (py ''thread-123'') sample_user io0 = (Inr r, s')
           \<and> map (\<lambda>c. content (message c)) (choices r) = [py ''No response generated'']
           \<and> map (\<lambda>c. role (message c)) (choices r) = [py ''assistant'']
           \<and> map finish_reason (choices r) = [py ''stop''])"
proof -
  have h: "ainvoke silent_graph
     \<lparr>input_messages = convert_messages_to_langgraph_format (messages sample_request)\<rparr>
     \<lparr>cfg_thread_id = py ''thread-123'', cfg_user_id = identity sample_user\<rparr>
     = Inr \<lparr>result_messages = Some []\<rparr>"
    by (simp add: silent_graph_def)
  have e: "result_messages \<lparr>result_messages = Some []\<rparr> = Some []" by simp
  from h empty_result_placeholder [OF h e, of sample_world io0]
  show ?thesis by (intro conjI)
qed

text \<open>
  The id \<open>nonexistent-graph\<close> in the sample registry.
\<close>

theorem unknown_model_is_404_witness:
  "get_graph sample_world (py ''nonexistent-graph'') = Inl (KeyError (py ''nonexistent-graph''))
   \<and> create_chat_completion sample_world (sample_request\<lparr>model := py ''nonexistent-graph''\<rparr>)
        sample_user io0 =
       (Inl (HTTPException 404 (py ''Graph/Model 'nonexistent-graph' not found'')), io0)
   \<and> get_model sample_world (py ''nonexistent-graph'') io0 =
       (Inl (HTTPException 404 (py ''Graph/Model 'nonexistent-graph' not found'')), io0)"
proof -
  have h: "get_graph sample_world (py ''nonexistent-graph'')
             = Inl (KeyError (py ''nonexistent-graph''))"
    by (simp add: sample_world_def py_def)
  have d: "py ''Graph/Model '' @ [39] @ py ''nonexistent-graph'' @ [39] @ py '' not found''
             = py ''Graph/Model 'nonexistent-graph' not found''"
    by (simp add: py_def)
  have m: "model (sample_request\<lparr>model := py ''nonexistent-graph''\<rparr>) = py ''nonexistent-graph''"
    by simp
  from unknown_model_is_404 [OF h, of "sample_request\<lparr>model := py ''nonexistent-graph''\<rparr>"
      sample_user io0]
  have "create_chat_completion sample_world (sample_request\<lparr>model := py ''nonexistent-graph''\<rparr>)
        sample_user io0 =
       (Inl (HTTPException 404 (py ''Graph/Model 'nonexistent-graph' not found'')), io0)"
    and "get_model sample_world (py ''nonexistent-graph'') io0 =
       (Inl (HTTPException 404 (py ''Graph/Model 'nonexistent-graph' not found'')), io0)"
    unfolding d m by simp_all
  with h show ?thesis by (intro conjI)
qed

lemma sample_registry:
  "get_graph sample_world (model sample_request) = Inr sample_graph"
  by (simp add: sample_world_def sample_request_def)

text \<open>
  The sample request carries \<open>thread-123\<close>.
\<close>

theorem thread_id_in_run_config_witness:
  "get_graph sample_world (model sample_request) = Inr sample_graph
   \<and> thread_id sample_request = Some (py ''thread-123'')
   \<and> py ''thread-123'' \<noteq> []
   \<and> calls (snd (create_chat_completion sample_world sample_request sample_user io0)) =
       [Ainvoke sample_input \<lparr>cfg_thread_id = py ''thread-123'', cfg_user_id = py ''alice''\<rparr>]"
proof -
  have t: "thread_id sample_request = Some (py ''thread-123'')" by (simp add: sample_request_def)
  have n: "py ''thread-123'' \<noteq> []" by (simp add: py_def)
  have s: "\<not> stream sample_request" by (simp add: sample_request_def)
  from thread_id_in_run_config [OF sample_registry, of sample_user io0, THEN conjunct1,
      THEN spec, THEN mp, OF conjI [OF t n]]
  have "calls (snd (create_chat_completion sample_world sample_request sample_user io0)) =
       [Ainvoke sample_input \<lparr>cfg_thread_id = py ''thread-123'', cfg_user_id = py ''alice''\<rparr>]"
    unfolding sample_input_eq by (simp add: s sample_io_calls)
  with sample_registry t n show ?thesis by (intro conjI)
qed

text \<open>
  Claim C6 as stated fails for the caller-supplied thread id \<open>""\<close>: the config passed
  to the graph carries a generated id instead.
\<close>

theorem thread_id_empty_counterexample:
  "thread_id (sample_request\<lparr>thread_id := Some []\<rparr>) = Some []
   \<and> calls (snd (create_chat_completion sample_world (sample_request\<lparr>thread_id := Some []\<rparr>)
        sample_user io0)) =
       [Ainvoke sample_input
          \<lparr>cfg_thread_id = py ''thread-'' @ py ''uuid-0'', cfg_user_id = py ''alice''\<rparr>]
   \<and> py ''thread-'' @ py ''uuid-0'' \<noteq> []"
proof -
  have g: "get_graph sample_world (model (sample_request\<lparr>thread_id := Some []\<rparr>)) = Inr sample_graph"
    by (simp add: sample_world_def sample_request_def)
  have m: "messages (sample_request\<lparr>thread_id := Some []\<rparr>) = messages sample_request" by simp
  have s: "\<not> stream (sample_request\<lparr>thread_id := Some []\<rparr>)" by (simp add: sample_request_def)
  have u: "uuid4 sample_world 0 = py ''uuid-0''" by (simp add: sample_world_def py_def)
  have "calls (snd (create_chat_completion sample_world (sample_request\<lparr>thread_id := Some []\<rparr>)
        sample_user io0)) =
       [Ainvoke sample_input
          \<lparr>cfg_thread_id = py ''thread-'' @ py ''uuid-0'', cfg_user_id = py ''alice''\<rparr>]"
    unfolding create_calls [OF g] m sample_input_eq by (simp add: s sample_io_calls u)
  moreover have "py ''thread-'' @ py ''uuid-0'' \<noteq> []" by (simp add: py_def)
  ultimately show ?thesis by simp
qed

lemma sample_tokens: "model_tokens sample_events = [py ''Bleed '', py ''radiators.'']"
  by (simp add: model_tokens_def sample_events_def py_def)

text \<open>
  The sample graph streams two tokens among five events.
\<close>

theorem stream_sequence_shape_witness:
  "astream_events sample_graph
     \<lparr>input_messages = convert_messages_to_langgraph_format (messages sample_request)\<rparr>
     \<lparr>cfg_thread_id = py ''thread-123'', cfg_user_id = identity sample_user\<rparr>
     = (sample_events, None)
   \<and> (\<exists>deltas final.
         fst (stream_chat_completion sample_world sample_request sample_graph (py ''thread-123'')
                sample_user io0) =
           map (sse_data sample_world) deltas
             @ [sse_data sample_world final, py ''data: [DONE]\<newline>\<newline>'']
       \<and> (\<forall>d\<in>set deltas. c_object d = py ''chat.completion.chunk''
                          \<and> map s_finish_reason (c_choices d) = [None])
       \<and> c_object final = py ''chat.completion.chunk''
       \<and> map s_finish_reason (c_choices final) = [Some (py ''stop'')]
       \<and> map (\<lambda>d. map (\<lambda>c. content (delta c)) (c_choices d)) deltas
            = map (\<lambda>t. [t]) [py ''Bleed '', py ''radiators.''])"
proof -
  have h: "astream_events sample_graph
     \<lparr>input_messages = convert_messages_to_langgraph_format (messages sample_request)\<rparr>
     \<lparr>cfg_thread_id = py ''thread-123'', cfg_user_id = identity sample_user\<rparr>
     = (sample_events, None)"
    by (simp add: sample_graph_def)
  from h stream_sequence_shape [OF h, of sample_world io0]
  show ?thesis unfolding sample_tokens by (intro conjI)
qed

lemma sample_stream_lines:
  "fst (stream_chat_completion sample_world sample_request sample_graph (py ''thread-123'')
          sample_user io0) =
     [py ''data: Bleed \<newline>\<newline>'', py ''data: radiators.\<newline>\<newline>'',
      py ''data: \<newline>\<newline>'', py ''data: [DONE]\<newline>\<newline>'']"
  by (simp add: stream_chat_completion_def Let_def sample_graph_def sample_events_def
      sse_data_def stream_chunk_def sample_world_def py_def)

end
